theory Spec2Isabelle
  imports Main "HOL-Library.Word"
begin

section \<open>FIRST Robotics Volunteer Portal: the questionnaire front end\<close>

text \<open>
  The React components of the portal keep their state in \<open>useState\<close> cells. A state
  setter called with an updater function (\<open>setX(prev => e)\<close>) is modelled by the
  updater itself: a function from the previous value of the cell to the next one. A
  JavaScript object used as a dictionary is a map from property keys to values; question
  ids are identified with the property keys they coerce to.
\<close>

subsection \<open>JavaScript values\<close>

text \<open>A value that may be \<open>undefined\<close> or \<open>null\<close>.\<close>

datatype 'a jsval = Undefined | Null | Val 'a

subsection \<open>questionnaireUtils.js\<close>

type_synonym ('k, 'a) completed = "'k \<rightharpoonup> 'a list"

text \<open>
  \<open>addCompletedQuestion(setCompletedQuestions, id, answer)\<close>: the updater
  \<open>prev => ({...prev, [id]: [answer]})\<close>.
\<close>

definition addCompletedQuestion ::
  "'k \<Rightarrow> 'a \<Rightarrow> ('k, 'a) completed \<Rightarrow> ('k, 'a) completed" where
  "addCompletedQuestion i answer prev = prev(i \<mapsto> [answer])"

text \<open>
  \<open>setCompletedQuestionsMulti(setCompletedQuestionsFunc, id, answersArray)\<close>: the updater
  \<open>prev => ({...prev, [id]: answersArray})\<close>.
\<close>

definition setCompletedQuestionsMulti ::
  "'k \<Rightarrow> 'a list \<Rightarrow> ('k, 'a) completed \<Rightarrow> ('k, 'a) completed" where
  "setCompletedQuestionsMulti i answersArray prev = prev(i \<mapsto> answersArray)"

text \<open>
  \<open>removeCompletedQuestion(completedQuestions, setCompletedQuestions, id)\<close>. The guard
  \<open>id in completedQuestions\<close> reads the object the caller passed (the value of the
  state cell at the caller's render), while the updater deletes from the value the cell
  has when the update runs. The \<open>in\<close> operator also finds keys inherited from
  \<open>Object.prototype\<close>; \<open>inherited\<close> says which keys those are.
\<close>

definition removeCompletedQuestion ::
  "('k \<Rightarrow> bool) \<Rightarrow> ('k, 'a) completed \<Rightarrow> 'k \<Rightarrow> ('k, 'a) completed \<Rightarrow> ('k, 'a) completed" where
  "removeCompletedQuestion inherited completedQuestions i prev =
     (if i \<in> dom completedQuestions \<or> inherited i then prev(i := None) else prev)"

subsection \<open>NavigationMenu\<close>

text \<open>
  \<open>skipPhysicalQuestions\<close> starts as \<open>null\<close> and becomes \<open>true\<close> or \<open>false\<close> once
  question 1 has been saved; only \<open>true\<close> is truthy.
\<close>

definition truthy_flag :: "bool jsval \<Rightarrow> bool" where
  "truthy_flag f = (f = Val True)"

text \<open>
  The Questionnaire's \<open>handleNextAnswerClick(numSkips)\<close> and
  \<open>handleBackAnswerClick(numSkips)\<close>: the updaters \<open>prev => prev + numSkips\<close> and
  \<open>prev => prev - numSkips\<close>. Question ids are small integers, far from the range where
  JavaScript numbers stop being exact.
\<close>

definition handleNextAnswerClick :: "int \<Rightarrow> int \<Rightarrow> int" where
  "handleNextAnswerClick numSkips prev = prev + numSkips"

definition handleBackAnswerClick :: "int \<Rightarrow> int \<Rightarrow> int" where
  "handleBackAnswerClick numSkips prev = prev - numSkips"

text \<open>
  \<open>handleNextClick\<close> and \<open>handleBackClick\<close> of the menu rendered with the props
  \<open>questionId\<close> and \<open>skipPhysicalQuestions\<close>; the last argument is the value of the
  \<open>questionId\<close> cell the updater is applied to.
\<close>

definition handleNextClick :: "int \<Rightarrow> bool jsval \<Rightarrow> int \<Rightarrow> int" where
  "handleNextClick questionId skipPhysicalQuestions prev =
     (if questionId = 1 \<and> truthy_flag skipPhysicalQuestions
      then handleNextAnswerClick 3 prev
      else handleNextAnswerClick 1 prev)"

definition handleBackClick :: "int \<Rightarrow> bool jsval \<Rightarrow> int \<Rightarrow> int" where
  "handleBackClick questionId skipPhysicalQuestions prev =
     (if questionId = 4 \<and> truthy_flag skipPhysicalQuestions
      then handleBackAnswerClick 3 prev
      else handleBackAnswerClick 1 prev)"

text \<open>
  A click on a menu whose props show the current state: the menu is rendered again after
  every state change, so the prop \<open>questionId\<close> is the value of the cell.
\<close>

definition next_click :: "bool jsval \<Rightarrow> int \<Rightarrow> int" where
  "next_click skipPhysicalQuestions q = handleNextClick q skipPhysicalQuestions q"

definition back_click :: "bool jsval \<Rightarrow> int \<Rightarrow> int" where
  "back_click skipPhysicalQuestions q = handleBackClick q skipPhysicalQuestions q"

subsection \<open>Strings\<close>

text \<open>
  A JavaScript string is a sequence of UTF-16 code units. \<open>js\<close> writes an ASCII literal
  as such a sequence.
\<close>

type_synonym js_char = "16 word"
type_synonym js_string = "js_char list"

definition js :: "string \<Rightarrow> js_string" where
  "js s = map of_char s"

text \<open>
  \<open>String.prototype.trim\<close> removes white space and line terminators from both ends.
  White space is TAB, VT, FF, the byte order mark and the space separators of Unicode
  (all within the basic plane); the line terminators are LF, CR, LS and PS.
\<close>

definition is_white_space :: "js_char \<Rightarrow> bool" where
  "is_white_space c \<longleftrightarrow>
     c \<in> set [0x0009, 0x000B, 0x000C, 0x0020, 0x00A0, 0x1680, 0x202F, 0x205F, 0x3000, 0xFEFF]
     \<or> (0x2000 \<le> c \<and> c \<le> 0x200A)"

definition is_line_terminator :: "js_char \<Rightarrow> bool" where
  "is_line_terminator c \<longleftrightarrow> c \<in> set [0x000A, 0x000D, 0x2028, 0x2029]"

definition strippable :: "js_char \<Rightarrow> bool" where
  "strippable c \<longleftrightarrow> is_white_space c \<or> is_line_terminator c"

definition trim :: "js_string \<Rightarrow> js_string" where
  "trim s = rev (dropWhile strippable (rev (dropWhile strippable s)))"

definition is_trimmed :: "js_string \<Rightarrow> bool" where
  "is_trimmed s \<longleftrightarrow> s = [] \<or> (\<not> strippable (hd s) \<and> \<not> strippable (last s))"

text \<open>
  \<open>String.prototype.split\<close> with a separator of one code unit: the pieces between the
  occurrences of the separator, empty pieces included; the empty string gives one empty
  piece. The result is never empty, so the second equation's \<open>[]\<close> case is never
  reached.
\<close>

fun js_split :: "js_char \<Rightarrow> js_string \<Rightarrow> js_string list" where
  "js_split sep [] = [[]]"
| "js_split sep (c # cs) =
     (if c = sep then [] # js_split sep cs
      else (case js_split sep cs of
              [] \<Rightarrow> [[c]]
            | piece # pieces \<Rightarrow> (c # piece) # pieces))"

definition comma :: js_char where
  "comma = 0x002C"

text \<open>A string is truthy when it is not empty; \<open>undefined\<close> and \<open>null\<close> are falsy.\<close>

definition truthy_string :: "js_string jsval \<Rightarrow> bool" where
  "truthy_string v = (case v of Val s \<Rightarrow> s \<noteq> [] | _ \<Rightarrow> False)"

subsection \<open>Exceptions and fetch\<close>

datatype js_error = URIError | NetworkError | HttpError nat | SyntaxError | TypeError

text \<open>
  What a \<open>fetch\<close> followed by \<open>response.json()\<close> can do: \<open>fetch\<close> rejects, or it
  resolves to a response with a status whose body either fails to parse or parses to a
  value. \<open>response.ok\<close> holds for the statuses 200 to 299.
\<close>

datatype 'b json_outcome = JsonThrows | Json 'b

datatype 'b fetch_outcome = FetchThrows | Response nat "'b json_outcome"

definition ok :: "nat \<Rightarrow> bool" where
  "ok status \<longleftrightarrow> 200 \<le> status \<and> status \<le> 299"

subsection \<open>Results page\<close>

text \<open>
  The result object the submit endpoint delivers:
  \<open>{status, session_id, results: {"Best fit roles", "Next best roles"}}\<close>. A property
  that is missing reads \<open>undefined\<close>.
\<close>

record role_lists =
  best_fit_roles :: "js_string jsval"
  next_best_roles :: "js_string jsval"

record assessment_result =
  status :: js_string
  session_id :: js_string
  results :: "role_lists jsval"

text \<open>\<open>currentResults?.results?.["Best fit roles"]\<close>\<close>

definition best_fit_field :: "assessment_result jsval \<Rightarrow> js_string jsval" where
  "best_fit_field currentResults =
     (case currentResults of
        Val r \<Rightarrow> (case results r of Val f \<Rightarrow> best_fit_roles f | _ \<Rightarrow> Undefined)
      | _ \<Rightarrow> Undefined)"

text \<open>
  The effect that recomputes \<open>options\<close> when \<open>currentResults\<close> changes. The array that
  \<open>split\<close> returns is an object and so truthy: \<open>|| []\<close> always yields its left operand.
\<close>

definition options_effect :: "assessment_result jsval \<Rightarrow> js_string list" where
  "options_effect currentResults =
     (if truthy_string (best_fit_field currentResults)
      then (case best_fit_field currentResults of
              Val s \<Rightarrow> js_split comma (trim s)
            | _ \<Rightarrow> [])
      else [])"

text \<open>
  A rendered button: its label and the option its \<open>onClick\<close> passes to
  \<open>dynamicButtonClick\<close>. While \<open>currentResults\<close> is \<open>null\<close> the page shows the loading
  header and no button.
\<close>

record button =
  label :: js_string
  role :: js_string

definition render_buttons :: "assessment_result jsval \<Rightarrow> js_string list \<Rightarrow> button list" where
  "render_buttons currentResults options =
     (if currentResults = Null then []
      else map (\<lambda>option. \<lparr>label = trim option, role = option\<rparr>) (take 3 options))"

text \<open>The buttons once the options effect has run for the current results.\<close>

definition Results_buttons :: "assessment_result jsval \<Rightarrow> button list" where
  "Results_buttons currentResults =
     render_buttons currentResults (options_effect currentResults)"



subsection \<open>Questionnaire\<close>

text \<open>
  The state cells of the Questionnaire component, and the callbacks that
  \<open>setTimeout\<close> has scheduled and not yet run (with their delays in milliseconds).
\<close>

datatype timer = ClearError

record ('k, 'a, 'd) questionnaire =
  questionId :: int
  data :: "'d jsval"
  isModalOpen :: bool
  completedQuestions :: "('k, 'a) completed"
  sessionId :: "js_string jsval"
  error :: "js_string jsval"
  skipPhysicalQuestions :: "bool jsval"
  totalQuestions :: int
  timers :: "(nat \<times> timer) list"

text \<open>
  The body of \<open>saveAnswer\<close>'s \<open>try\<close> block: the exception it throws, if any, and the
  state at that point. The parameters \<open>sessionId\<close> and \<open>questionId\<close> of \<open>saveAnswer\<close>
  hide the state cells of the same names; they are \<open>sid\<close> and \<open>qid\<close> here. The reply
  of the save endpoint is \<open>null\<close> (reading \<open>result.skip\<close> then throws a TypeError) or
  a value whose \<open>skip\<close> property is truthy or not.
\<close>

definition saveAnswer_try ::
  "bool jsval fetch_outcome \<Rightarrow> js_string jsval \<Rightarrow> int \<Rightarrow> bool
    \<Rightarrow> ('k, 'a, 'd) questionnaire \<Rightarrow> js_error option \<times> ('k, 'a, 'd) questionnaire" where
  "saveAnswer_try outcome sid qid autoSave s =
     (if autoSave \<and> truthy_string sid then
        (case outcome of
           FetchThrows \<Rightarrow> (Some NetworkError, s)
         | Response code body \<Rightarrow>
             if \<not> ok code then (Some (HttpError code), s)
             else (case body of
                     JsonThrows \<Rightarrow> (Some SyntaxError, s)
                   | Json result \<Rightarrow>
                       if qid = 1 then
                         (case result of
                            Val skip \<Rightarrow>
                              if skip
                              then (None, s\<lparr>skipPhysicalQuestions := Val True,
                                            totalQuestions := 10\<rparr>)
                              else (None, s\<lparr>skipPhysicalQuestions := Val False,
                                            totalQuestions := 12\<rparr>)
                          | _ \<Rightarrow> (Some TypeError, s))
                       else (None, s)))
      else (None, s))"

text \<open>
  \<open>saveAnswer\<close>: the \<open>try\<close> block, then the \<open>catch\<close> block when it threw. The first
  component is the exception that reaches the caller (the rejection of the promise).
\<close>

definition saveAnswer ::
  "bool jsval fetch_outcome \<Rightarrow> js_string jsval \<Rightarrow> int \<Rightarrow> bool
    \<Rightarrow> ('k, 'a, 'd) questionnaire \<Rightarrow> js_error option \<times> ('k, 'a, 'd) questionnaire" where
  "saveAnswer outcome sid qid autoSave s =
     (case saveAnswer_try outcome sid qid autoSave s of
        (None, s') \<Rightarrow> (None, s')
      | (Some e, s') \<Rightarrow>
          (None, s'\<lparr>error := Val (js ''Failed to save answer - your progress may not be saved''),
                    timers := timers s' @ [(300, ClearError)]\<rparr>))"

text \<open>Running the scheduled callback \<open>() => setError(null)\<close>.\<close>

fun run_timer :: "timer \<Rightarrow> ('k, 'a, 'd) questionnaire \<Rightarrow> ('k, 'a, 'd) questionnaire" where
  "run_timer ClearError s = s\<lparr>error := Null\<rparr>"

subsection \<open>CreateNumButtons\<close>

record ('k, 'a) question_data =
  data_id :: 'k
  data_question :: js_string
  data_options :: "'a list"

text \<open>A call \<open>saveAnswer(sessionId, data.id, optionKey, data.question)\<close>.\<close>

record ('k, 'a) save_call =
  call_sessionId :: "js_string jsval"
  call_questionId :: 'k
  call_answer :: "'a jsval"
  call_question :: js_string

text \<open>
  What a click does: the new value of \<open>selectedButton\<close>, the new value of the
  \<open>completedQuestions\<close> cell, and the calls of \<open>saveAnswer\<close> it made.
\<close>

record ('k, 'a) click_result =
  selectedButton :: "'a jsval"
  completed :: "('k, 'a jsval) completed"
  saves :: "('k, 'a) save_call list"

text \<open>
  \<open>handleButtonClick(event)\<close>. The buttons are rendered with the ids \<open>button0\<close>,
  \<open>button1\<close>, ..., so the event is the index of the clicked button; an index outside
  \<open>data.options\<close> reads \<open>undefined\<close>. \<open>shown\<close> is the \<open>completedQuestions\<close> prop of the render,
  \<open>selected\<close> the \<open>selectedButton\<close> cell, \<open>prev\<close> the value of the \<open>completedQuestions\<close>
  cell the updater is applied to.
\<close>

definition clicked_option :: "('k, 'a) question_data \<Rightarrow> nat \<Rightarrow> 'a jsval" where
  "clicked_option dat index =
     (if index < length (data_options dat) then Val (data_options dat ! index) else Undefined)"

definition handleButtonClick ::
  "('k \<Rightarrow> bool) \<Rightarrow> ('k, 'a) question_data \<Rightarrow> ('k, 'a jsval) completed \<Rightarrow> 'a jsval
    \<Rightarrow> js_string jsval \<Rightarrow> nat \<Rightarrow> ('k, 'a jsval) completed \<Rightarrow> ('k, 'a) click_result" where
  "handleButtonClick inherited dat shown selected sid index prev =
     (let optionKey = clicked_option dat index
      in if optionKey = selected
         then \<lparr>selectedButton = Null,
               completed = removeCompletedQuestion inherited shown (data_id dat) prev,
               saves = []\<rparr>
         else \<lparr>selectedButton = optionKey,
               completed = addCompletedQuestion (data_id dat) optionKey prev,
               saves = [\<lparr>call_sessionId = sid, call_questionId = data_id dat,
                         call_answer = optionKey, call_question = data_question dat\<rparr>]\<rparr>)"

text \<open>
  The front end reaches the stored answers only through \<open>saveAnswer\<close>: whatever a save
  call does to the store, the store after a click is the store after the click's calls.
\<close>

definition store_after ::
  "(('k, 'a) save_call \<Rightarrow> 'b \<Rightarrow> 'b) \<Rightarrow> ('k, 'a) save_call list \<Rightarrow> 'b \<Rightarrow> 'b" where
  "store_after save calls store = foldl (\<lambda>b c. save c b) store calls"

subsection \<open>Page\<close>

record 'v page =
  expressLink :: "'v jsval"
  descLink :: "'v jsval"
  videoLink :: "'v jsval"
  loading :: bool
  page_error :: "js_string jsval"
  videoPlayed :: bool

definition Page_initial :: "'v page" where
  "Page_initial = \<lparr>expressLink = Null, descLink = Null, videoLink = Null,
                    loading = True, page_error = Null, videoPlayed = False\<rparr>"

text \<open>
  The value the role-links endpoint replies with: \<open>null\<close> (a property read throws a
  TypeError), a value without properties of the three names (a number, a string, a
  boolean, an array), or an object.
\<close>

datatype 'v json = JNull | JPrimitive | JObject "string \<Rightarrow> 'v jsval"

text \<open>The \<open>try\<close> block of \<open>getRoleLinks\<close>.\<close>

definition getRoleLinks_try ::
  "'v json fetch_outcome \<Rightarrow> 'v page \<Rightarrow> js_error option \<times> 'v page" where
  "getRoleLinks_try outcome s =
     (let s1 = s\<lparr>loading := True, page_error := Null\<rparr> in
      case outcome of
        FetchThrows \<Rightarrow> (Some NetworkError, s1)
      | Response code body \<Rightarrow>
          if \<not> ok code then (Some (HttpError code), s1)
          else (case body of
                  JsonThrows \<Rightarrow> (Some SyntaxError, s1)
                | Json JNull \<Rightarrow> (Some TypeError, s1)
                | Json JPrimitive \<Rightarrow>
                    (None, s1\<lparr>expressLink := Undefined, descLink := Undefined,
                               videoLink := Undefined\<rparr>)
                | Json (JObject result) \<Rightarrow>
                    (None, s1\<lparr>expressLink := result ''express_link'',
                               descLink := result ''desc_link'',
                               videoLink := result ''video_link''\<rparr>)))"

text \<open>
  \<open>getRoleLinks(roleName)\<close>: \<open>try\<close>, \<open>catch\<close>, \<open>finally\<close>. \<open>server\<close> is what the
  request for a role name meets.
\<close>

definition getRoleLinks ::
  "(js_string \<Rightarrow> 'v json fetch_outcome) \<Rightarrow> js_string \<Rightarrow> 'v page
    \<Rightarrow> js_error option \<times> 'v page" where
  "getRoleLinks server name s =
     (let (thrown, s2) = getRoleLinks_try (server name) s;
          s3 = (case thrown of
                  None \<Rightarrow> s2
                | Some e \<Rightarrow>
                    s2\<lparr>page_error := Val (js ''Failed to load role links. Please try again.'')\<rparr>)
      in (None, s3\<lparr>loading := False\<rparr>))"

subsection \<open>Example data\<close>

text \<open>A result object as the submit endpoint delivers it, with a given best-fit field.\<close>

definition example_result :: "js_string \<Rightarrow> assessment_result" where
  "example_result s = \<lparr>status = js ''completed'', session_id = js ''abc'',
      results = Val \<lparr>best_fit_roles = Val s, next_best_roles = Val []\<rparr>\<rparr>"

text \<open>A questionnaire in progress, at its third question, with one answer given.\<close>

definition example_questionnaire :: "(int, js_string, unit) questionnaire" where
  "example_questionnaire =
     \<lparr>questionId = 2, data = Null, isModalOpen = False,
      completedQuestions = [0 \<mapsto> [js ''18'']], sessionId = Val (js ''abc''),
      error = Null, skipPhysicalQuestions = Val False, totalQuestions = 12, timers = []\<rparr>"

text \<open>A question shown with three number buttons.\<close>

definition example_question :: "(int, js_string) question_data" where
  "example_question = \<lparr>data_id = 5, data_question = js ''How active?'',
      data_options = [js ''1'', js ''2'', js ''3'']\<rparr>"

text \<open>
  A role-links endpoint that knows the links of one role, answers 404 for another and is
  unreachable for the rest.
\<close>

definition example_links :: "string \<Rightarrow> js_string jsval" where
  "example_links = (\<lambda>k. Undefined)
     (''express_link'' := Val (js ''https://e''), ''desc_link'' := Val (js ''https://d''),
      ''video_link'' := Null)"

definition example_server :: "js_string \<Rightarrow> js_string json fetch_outcome" where
  "example_server name =
     (if name = js ''Referee'' then Response 200 (Json (JObject example_links))
      else if name = js ''Judge'' then Response 404 (Json JNull)
      else FetchThrows)"

section \<open>Properties\<close>

subsection \<open>Trimming and splitting\<close>


lemma trim_fixes_trimmed:
  assumes "is_trimmed s"
  shows "trim s = s"
proof (cases "s = []")
  case True
  then show ?thesis by (simp add: trim_def)
next
  case False
  with assms have h: "\<not> strippable (hd s)" and l: "\<not> strippable (last s)"
    by (simp_all add: is_trimmed_def)
  have front: "dropWhile strippable s = s"
    using False h by (simp add: dropWhile_eq_self_iff)
  have rear: "dropWhile strippable (rev s) = rev s"
    using False l by (simp add: dropWhile_eq_self_iff hd_rev)
  show ?thesis by (simp add: trim_def front rear)
qed

lemma trim_all_strippable:
  assumes "\<forall>c \<in> set s. strippable c"
  shows "trim s = []"
proof -
  have front: "dropWhile strippable s = []"
    unfolding dropWhile_eq_Nil_conv using assms .
  show ?thesis unfolding trim_def front by simp
qed

lemma js_split_nonempty: "js_split sep s \<noteq> []"
  by (induction s) (auto split: list.splits)

lemma js_split_pieces: "concat (map (\<lambda>p. sep # p) (js_split sep s)) = sep # s"
  by (induction s) (auto split: list.splits)

lemma js_split_no_separator: "p \<in> set (js_split sep s) \<Longrightarrow> sep \<notin> set p"
  by (induction s arbitrary: p) (auto split: list.splits if_splits)

subsection \<open>Completed questions\<close>

text \<open>
  Claim C2. For every completedQuestions map, question id \<open>i\<close> and answers \<open>a\<close>, \<open>b\<close>:
  addCompletedQuestion binds \<open>i\<close> to exactly the one-element list \<open>[a]\<close>; applying it
  for \<open>i\<close> with \<open>b\<close> after applying it with \<open>a\<close> gives the same map as applying it with
  \<open>b\<close> alone, so applying the same \<open>(i, a)\<close> twice equals applying it once;
  setCompletedQuestionsMulti likewise binds \<open>i\<close> to the whole new answer list, whatever
  was bound before.
\<close>

theorem completed_question_replaces:
  "addCompletedQuestion i a m i = Some [a]
   \<and> addCompletedQuestion i b (addCompletedQuestion i a m) = addCompletedQuestion i b m
   \<and> addCompletedQuestion i a (addCompletedQuestion i a m) = addCompletedQuestion i a m
   \<and> setCompletedQuestionsMulti i xs m i = Some xs
   \<and> setCompletedQuestionsMulti i ys (setCompletedQuestionsMulti i xs m)
       = setCompletedQuestionsMulti i ys m
   \<and> setCompletedQuestionsMulti i ys (addCompletedQuestion i a m)
       = setCompletedQuestionsMulti i ys m"
  by (simp add: addCompletedQuestion_def setCompletedQuestionsMulti_def)

text \<open>
  Claim C6. For every completedQuestions map \<open>m\<close> and question id \<open>i\<close>, the three
  operations leave the binding of every question id \<open>j \<noteq> i\<close> unchanged, and
  removeCompletedQuestion is the identity on \<open>m\<close> when \<open>i\<close> is not a key of \<open>m\<close>.
  Both hold whatever object the \<open>in\<close> guard of removeCompletedQuestion reads (the map
  itself or an older render's), and whether or not it finds an inherited key.
\<close>

theorem completed_question_frame:
  "(j \<noteq> i \<longrightarrow>
      addCompletedQuestion i a m j = m j
      \<and> setCompletedQuestionsMulti i xs m j = m j
      \<and> removeCompletedQuestion inherited shown i m j = m j)
   \<and> (i \<notin> dom m \<longrightarrow> removeCompletedQuestion inherited shown i m = m)"
  by (auto simp: addCompletedQuestion_def setCompletedQuestionsMulti_def
      removeCompletedQuestion_def)

theorem completed_question_frame_witness:
  "addCompletedQuestion (1::nat) ''B'' [2 \<mapsto> [''A'']] 2 = Some [''A'']
   \<and> setCompletedQuestionsMulti (1::nat) [''B'', ''C''] [2 \<mapsto> [''A'']] 2 = Some [''A'']
   \<and> removeCompletedQuestion (\<lambda>k. False) [1 \<mapsto> [''B''], 2 \<mapsto> [''A'']] (1::nat)
        [1 \<mapsto> [''B''], 2 \<mapsto> [''A'']] 2 = Some [''A'']
   \<and> removeCompletedQuestion (\<lambda>k. True) [2 \<mapsto> [''A'']] (1::nat) [2 \<mapsto> [''A'']]
        = [2 \<mapsto> [''A'']]"
  using completed_question_frame [of 2 "1::nat" "''B''" "[2 \<mapsto> [''A'']]" "[''B'', ''C'']"
      "\<lambda>k. False" "[2 \<mapsto> [''A'']]"]
    completed_question_frame [of 2 "1::nat" "''B''" "[1 \<mapsto> [''B''], 2 \<mapsto> [''A'']]" "[]"
      "\<lambda>k. False" "[1 \<mapsto> [''B''], 2 \<mapsto> [''A'']]"]
    completed_question_frame [of 2 "1::nat" "''B''" "[2 \<mapsto> [''A'']]" "[]"
      "\<lambda>k. True" "[2 \<mapsto> [''A'']]"]
  by simp

subsection \<open>Navigation\<close>

text \<open>
  Claim C10. handleNextClick advances questionId by 3 exactly when questionId = 1 and
  skipPhysicalQuestions is true, and by 1 otherwise; handleBackClick moves back by 3
  exactly when questionId = 4 and skipPhysicalQuestions is true, and by 1 otherwise.
  Consequently Next followed by Back restores the original questionId for every
  questionId when skipPhysicalQuestions is not true, and for every questionId other than
  3 when it is.
\<close>

theorem navigation_next_back:
  "next_click skip q = (if q = 1 \<and> skip = Val True then q + 3 else q + 1)
   \<and> back_click skip q = (if q = 4 \<and> skip = Val True then q - 3 else q - 1)
   \<and> (skip \<noteq> Val True \<or> q \<noteq> 3 \<longrightarrow> back_click skip (next_click skip q) = q)"
  by (simp add: next_click_def back_click_def handleNextClick_def handleBackClick_def
      handleNextAnswerClick_def handleBackAnswerClick_def truthy_flag_def)

theorem navigation_next_back_witness:
  "next_click (Val True) 1 = 4 \<and> back_click (Val True) 4 = 1
   \<and> back_click (Val True) (next_click (Val True) 1) = 1
   \<and> back_click (Val False) (next_click (Val False) 3) = 3
   \<and> back_click Null (next_click Null 3) = 3"
  using navigation_next_back [of "Val True" 1] navigation_next_back [of "Val True" 4]
    navigation_next_back [of "Val False" 3] navigation_next_back [of Null 3]
    navigation_next_back [of "Val False" 4] navigation_next_back [of Null 4]
  by simp

lemma navigation_skip_not_undone:
  "next_click (Val True) 3 = 4 \<and> back_click (Val True) (next_click (Val True) 3) = 1"
  by (simp add: next_click_def back_click_def handleNextClick_def handleBackClick_def
      handleNextAnswerClick_def handleBackAnswerClick_def truthy_flag_def)

subsection \<open>Results page\<close>





text \<open>
  Claim C8, as amended. If the "Best fit roles" field is the empty string, the guard
  \<open>if (currentResults?.results?.["Best fit roles"])\<close> is false: the page sets
  \<open>options\<close> to \<open>[]\<close> and renders no button. For a field that is not empty the
  options are never empty. A field that is not empty and made of white space only gives
  \<open>options = [""]\<close> and exactly one button, with an empty label.
\<close>

theorem empty_best_fit_no_buttons:
  "(best_fit_field currentResults = Val [] \<longrightarrow>
      options_effect currentResults = [] \<and> Results_buttons currentResults = [])
   \<and> (best_fit_field currentResults = Val s \<and> s \<noteq> [] \<longrightarrow>
        options_effect currentResults \<noteq> [])
   \<and> (best_fit_field currentResults = Val s \<and> s \<noteq> [] \<and> (\<forall>c \<in> set s. strippable c) \<longrightarrow>
        options_effect currentResults = [[]]
        \<and> Results_buttons currentResults = [\<lparr>label = [], role = []\<rparr>])"
proof -
  have not_null: "best_fit_field Null = Undefined"
    by (simp add: best_fit_field_def)
  have blank: "trim [] = []" by (simp add: trim_def)
  show ?thesis
    by (auto simp: options_effect_def truthy_string_def Results_buttons_def render_buttons_def
        trim_all_strippable js_split_nonempty blank not_null)
qed

theorem empty_best_fit_no_buttons_witness:
  "options_effect (Val (example_result [])) = []
   \<and> Results_buttons (Val (example_result [])) = []
   \<and> options_effect (Val (example_result (js '' ''))) = [[]]
   \<and> Results_buttons (Val (example_result (js '' ''))) = [\<lparr>label = [], role = []\<rparr>]"
proof -
  have e: "best_fit_field (Val (example_result [])) = Val []"
    by (simp add: best_fit_field_def example_result_def)
  have b: "best_fit_field (Val (example_result (js '' ''))) = Val (js '' '')
      \<and> js '' '' \<noteq> [] \<and> (\<forall>c \<in> set (js '' ''). strippable c)"
    by (simp add: best_fit_field_def example_result_def js_def strippable_def is_white_space_def)
  show ?thesis
    using empty_best_fit_no_buttons [of "Val (example_result [])" "[]"]
      empty_best_fit_no_buttons [of "Val (example_result (js '' ''))" "js '' ''"] e b
    by blast
qed

text \<open>
  Claim C8, as stated (for the empty string the page computes \<open>options = [""]\<close> and
  renders exactly one button), fails on the result object whose field is the empty
  string.
\<close>

theorem empty_best_fit_counterexample:
  "options_effect (Val (example_result [])) \<noteq> [[]]
   \<and> length (Results_buttons (Val (example_result []))) \<noteq> 1"
  by (simp add: options_effect_def best_fit_field_def truthy_string_def example_result_def
      Results_buttons_def render_buttons_def)

subsection \<open>Saving an answer\<close>

text \<open>
  Claim C5. For every failed save of an answer (a status that is not OK, or \<open>fetch\<close>
  throwing), saveAnswer catches the error, records the warning message and schedules its
  removal, and returns normally: no exception reaches the caller, and questionId,
  sessionId and the completedQuestions map are unchanged, as is every other cell but
  \<open>error\<close>. (When autoSave is off or there is no session id, no request is made and
  nothing changes.)
\<close>

theorem saveAnswer_failed_save:
  assumes "outcome = FetchThrows \<or> (\<exists>code body. outcome = Response code body \<and> \<not> ok code)"
  shows "fst (saveAnswer outcome sid qid autoSave s) = None
    \<and> snd (saveAnswer outcome sid qid autoSave s)
        = (if autoSave \<and> truthy_string sid
           then s\<lparr>error := Val (js ''Failed to save answer - your progress may not be saved''),
                  timers := timers s @ [(300, ClearError)]\<rparr>
           else s)
    \<and> questionId (snd (saveAnswer outcome sid qid autoSave s)) = questionId s
    \<and> sessionId (snd (saveAnswer outcome sid qid autoSave s)) = sessionId s
    \<and> completedQuestions (snd (saveAnswer outcome sid qid autoSave s)) = completedQuestions s
    \<and> error (run_timer ClearError (snd (saveAnswer outcome sid qid autoSave s))) = Null"
  using assms by (auto simp: saveAnswer_def saveAnswer_try_def)

theorem saveAnswer_failed_save_witness:
  "saveAnswer (Response 500 JsonThrows) (Val (js ''abc'')) 2 True example_questionnaire
     = (None, example_questionnaire
          \<lparr>error := Val (js ''Failed to save answer - your progress may not be saved''),
           timers := [(300, ClearError)]\<rparr>)
   \<and> saveAnswer FetchThrows (Val (js ''abc'')) 2 True example_questionnaire
     = (None, example_questionnaire
          \<lparr>error := Val (js ''Failed to save answer - your progress may not be saved''),
           timers := [(300, ClearError)]\<rparr>)"
proof -
  have a: "Response 500 JsonThrows = FetchThrows
      \<or> (\<exists>code body. Response 500 (JsonThrows :: bool jsval json_outcome) = Response code body \<and> \<not> ok code)"
    by (simp add: ok_def)
  have t: "truthy_string (Val (js ''abc''))" "timers example_questionnaire = []"
    by (simp_all add: truthy_string_def js_def example_questionnaire_def)
  show ?thesis
    using saveAnswer_failed_save [OF a, of "Val (js ''abc'')" 2 True example_questionnaire]
      saveAnswer_failed_save [of FetchThrows "Val (js ''abc'')" 2 True example_questionnaire] t
    by (simp add: prod_eq_iff)
qed

subsection \<open>Number buttons\<close>

text \<open>
  Claim C9. In CreateNumButtons, when the clicked option equals the selected one,
  handleButtonClick deselects it: it removes the entry for \<open>data.id\<close> from the local
  completedQuestions map and does not call saveAnswer, so whatever a save call does to
  the stored answers, they are unchanged; saveAnswer is called on the selection branch
  only, once.
\<close>

theorem deselect_issues_no_save:
  "(clicked_option dat index = selected \<longrightarrow>
      selectedButton (handleButtonClick inherited dat shown selected sid index prev) = Null
      \<and> completed (handleButtonClick inherited dat shown selected sid index prev)
          = removeCompletedQuestion inherited shown (data_id dat) prev
      \<and> completed (handleButtonClick inherited dat prev selected sid index prev)
          = prev(data_id dat := None)
      \<and> saves (handleButtonClick inherited dat shown selected sid index prev) = []
      \<and> store_after save (saves (handleButtonClick inherited dat shown selected sid index prev))
           store = store)
   \<and> (saves (handleButtonClick inherited dat shown selected sid index prev) \<noteq> []
        \<longleftrightarrow> clicked_option dat index \<noteq> selected)
   \<and> (clicked_option dat index \<noteq> selected \<longrightarrow>
        saves (handleButtonClick inherited dat shown selected sid index prev)
          = [\<lparr>call_sessionId = sid, call_questionId = data_id dat,
               call_answer = clicked_option dat index, call_question = data_question dat\<rparr>])"
  by (auto simp: handleButtonClick_def Let_def store_after_def removeCompletedQuestion_def
      fun_upd_idem_iff)

theorem deselect_issues_no_save_witness:
  "saves (handleButtonClick (\<lambda>k. False) example_question [5 \<mapsto> [Val (js ''2'')]]
           (Val (js ''2'')) (Val (js ''abc'')) 1 [5 \<mapsto> [Val (js ''2'')]]) = []
   \<and> completed (handleButtonClick (\<lambda>k. False) example_question [5 \<mapsto> [Val (js ''2'')]]
           (Val (js ''2'')) (Val (js ''abc'')) 1 [5 \<mapsto> [Val (js ''2'')]]) 5 = None
   \<and> saves (handleButtonClick (\<lambda>k. False) example_question [5 \<mapsto> [Val (js ''2'')]]
           (Val (js ''2'')) (Val (js ''abc'')) 2 [5 \<mapsto> [Val (js ''2'')]])
       = [\<lparr>call_sessionId = Val (js ''abc''), call_questionId = 5,
            call_answer = Val (js ''3''), call_question = js ''How active?''\<rparr>]"
proof -
  have same: "clicked_option example_question 1 = Val (js ''2'')"
    and other: "clicked_option example_question 2 = Val (js ''3'')"
    and neq: "Val (js ''3'') \<noteq> Val (js ''2'')"
    and dat: "data_id example_question = 5" "data_question example_question = js ''How active?''"
    by (simp_all add: clicked_option_def example_question_def js_def)
  show ?thesis
    using deselect_issues_no_save [of example_question 1 "Val (js ''2'')" "\<lambda>k. False"
        "[5 \<mapsto> [Val (js ''2'')]]" "Val (js ''abc'')" "[5 \<mapsto> [Val (js ''2'')]]"
        "\<lambda>c b. b" "()"]
      deselect_issues_no_save [of example_question 2 "Val (js ''2'')" "\<lambda>k. False"
        "[5 \<mapsto> [Val (js ''2'')]]" "Val (js ''abc'')" "[5 \<mapsto> [Val (js ''2'')]]"
        "\<lambda>c b. b" "()"]
      same other neq dat
    by (simp add: removeCompletedQuestion_def)
qed

subsection \<open>Role links\<close>

lemma getRoleLinks_completes:
  "fst (getRoleLinks server name s) = None \<and> loading (snd (getRoleLinks server name s)) = False"
  by (simp add: getRoleLinks_def Let_def split_beta)

lemma getRoleLinks_other_replies:
  assumes "server name = Response code body" and "ok code"
  shows "body = JsonThrows \<or> body = Json JNull \<Longrightarrow>
           snd (getRoleLinks server name s)
             = s\<lparr>loading := False,
                  page_error := Val (js ''Failed to load role links. Please try again.'')\<rparr>"
    and "body = Json JPrimitive \<Longrightarrow>
           snd (getRoleLinks server name s)
             = s\<lparr>expressLink := Undefined, descLink := Undefined, videoLink := Undefined,
                  loading := False, page_error := Null\<rparr>"
  using assms by (auto simp: getRoleLinks_def getRoleLinks_try_def Let_def split_beta)

text \<open>
  Claim C7. For every role name, getRoleLinks either succeeds and sets the three link
  cells from the fields \<open>express_link\<close>, \<open>desc_link\<close> and \<open>video_link\<close> of the reply,
  or, on a status that is not OK or when \<open>fetch\<close> fails, sets the error message
  "Failed to load role links. Please try again." and leaves the three link cells as they
  were (\<open>null\<close> on the first load); in both cases \<open>loading\<close> is false when the call
  completes.
\<close>

theorem getRoleLinks_outcomes:
  "fst (getRoleLinks server name s) = None
   \<and> loading (snd (getRoleLinks server name s)) = False
   \<and> (\<forall>code result. server name = Response code (Json (JObject result)) \<and> ok code \<longrightarrow>
         expressLink (snd (getRoleLinks server name s)) = result ''express_link''
         \<and> descLink (snd (getRoleLinks server name s)) = result ''desc_link''
         \<and> videoLink (snd (getRoleLinks server name s)) = result ''video_link''
         \<and> page_error (snd (getRoleLinks server name s)) = Null)
   \<and> (server name = FetchThrows
        \<or> (\<exists>code body. server name = Response code body \<and> \<not> ok code) \<longrightarrow>
         page_error (snd (getRoleLinks server name s))
           = Val (js ''Failed to load role links. Please try again.'')
         \<and> expressLink (snd (getRoleLinks server name s)) = expressLink s
         \<and> descLink (snd (getRoleLinks server name s)) = descLink s
         \<and> videoLink (snd (getRoleLinks server name s)) = videoLink s)"
  by (auto simp: getRoleLinks_def getRoleLinks_try_def Let_def split_beta)

theorem getRoleLinks_outcomes_witness:
  "snd (getRoleLinks example_server (js ''Referee'') Page_initial)
     = \<lparr>expressLink = Val (js ''https://e''), descLink = Val (js ''https://d''),
        videoLink = Null, loading = False, page_error = Null, videoPlayed = False\<rparr>
   \<and> snd (getRoleLinks example_server (js ''Judge'') Page_initial)
     = \<lparr>expressLink = Null, descLink = Null, videoLink = Null, loading = False,
        page_error = Val (js ''Failed to load role links. Please try again.''),
        videoPlayed = False\<rparr>
   \<and> snd (getRoleLinks example_server (js ''Queuer'') Page_initial)
     = \<lparr>expressLink = Null, descLink = Null, videoLink = Null, loading = False,
        page_error = Val (js ''Failed to load role links. Please try again.''),
        videoPlayed = False\<rparr>"
proof -
  have r: "example_server (js ''Referee'') = Response 200 (Json (JObject example_links))"
    and j: "example_server (js ''Judge'') = Response 404 (Json JNull)"
    and q: "example_server (js ''Queuer'') = FetchThrows"
    by (simp_all add: example_server_def js_def)
  have codes: "ok 200" "\<not> ok 404" by (simp_all add: ok_def)
  have links: "example_links ''express_link'' = Val (js ''https://e'')"
    "example_links ''desc_link'' = Val (js ''https://d'')"
    "example_links ''video_link'' = Null"
    by (simp_all add: example_links_def)
  have played: "videoPlayed (snd (getRoleLinks example_server name Page_initial)) = False" for name
    by (simp add: getRoleLinks_def getRoleLinks_try_def Let_def Page_initial_def split_beta
        split: fetch_outcome.splits json_outcome.splits json.splits option.splits)
  have init: "expressLink (Page_initial :: js_string page) = Null"
    "descLink (Page_initial :: js_string page) = Null"
    "videoLink (Page_initial :: js_string page) = Null"
    by (simp_all add: Page_initial_def)
  show ?thesis
    using getRoleLinks_outcomes [of example_server "js ''Referee''" Page_initial]
      getRoleLinks_outcomes [of example_server "js ''Judge''" Page_initial]
      getRoleLinks_outcomes [of example_server "js ''Queuer''" Page_initial]
      r j q codes links played init
    by (simp add: page.equality)
qed

end
